theory Spec2Isabelle
  imports Complex_Main
begin

section \<open>Transaction match scorer of the MedSpaSync reconciliation API\<close>

text \<open>
  The development embeds \<^verbatim>\<open>SimpleFuzzyMatcher.ratio\<close>,
  \<^verbatim>\<open>MedSpaReconciliationAPI.parse_date\<close>, \<^verbatim>\<open>engineer_features\<close>,
  \<^verbatim>\<open>predict_match\<close> and the \<^verbatim>\<open>/batch-predict\<close> handler of
  \<^verbatim>\<open>app.py\<close>.

  Conventions of the model:
  \<^item> Python strings are character lists. \<^verbatim>\<open>lower\<close> and whitespace are
    modelled on the ASCII range; other characters are caseless and not whitespace.
  \<^item> Python floats that are always finite (similarities, proximities, probabilities)
    are exact rationals: rounding error of the binary representation is not modelled.
    Amounts, which can be infinite or NaN, have a type of their own.
  \<^item> Every \<^verbatim>\<open>raise\<close> is a value \<open>Inl e\<close>; every \<^verbatim>\<open>try/except\<close> is a case
    distinction on it.
  \<^item> The standard library (\<^verbatim>\<open>datetime\<close> parsing and subtraction, \<^verbatim>\<open>str\<close> of a
    value that is not a string, \<^verbatim>\<open>float\<close> of a string) is a parameter \<open>rt\<close> of the
    model, and the wall clock is an input of every function that reads it.
\<close>

subsection \<open>Exceptions\<close>

datatype exn =
    ValueError string
  | TypeError
  | OverflowError
  | ZeroDivisionError
  | AttributeError
  | IndexError
  | KeyError string

subsection \<open>String primitives\<close>

definition lower_char :: "char \<Rightarrow> char" where
  "lower_char c =
     (let n = (of_char c :: nat) in if 65 \<le> n \<and> n \<le> 90 then char_of (n + 32) else c)"

definition lower :: "string \<Rightarrow> string" where
  "lower s = map lower_char s"

text \<open>The ASCII characters for which \<^verbatim>\<open>str.isspace\<close> holds.\<close>

definition is_space :: "char \<Rightarrow> bool" where
  "is_space c = (let n = (of_char c :: nat) in (9 \<le> n \<and> n \<le> 13) \<or> (28 \<le> n \<and> n \<le> 32))"

definition strip :: "string \<Rightarrow> string" where
  "strip s = rev (dropWhile is_space (rev (dropWhile is_space s)))"

text \<open>\<^verbatim>\<open>s.split()\<close>: the maximal runs of non-whitespace characters, in order.\<close>

fun split_ws_from :: "string \<Rightarrow> string \<Rightarrow> string list" where
  "split_ws_from cur [] = (if cur = [] then [] else [rev cur])"
| "split_ws_from cur (c # cs) =
     (if is_space c
      then (if cur = [] then split_ws_from [] cs else rev cur # split_ws_from [] cs)
      else split_ws_from (c # cur) cs)"

definition split_ws :: "string \<Rightarrow> string list" where
  "split_ws s = split_ws_from [] s"

text \<open>\<^verbatim>\<open>s.split(sep)\<close> for a one-character separator: never the empty list.\<close>

fun split_on :: "char \<Rightarrow> string \<Rightarrow> string list" where
  "split_on sep [] = [[]]"
| "split_on sep (c # cs) =
     (if c = sep then [] # split_on sep cs
      else (case split_on sep cs of [] \<Rightarrow> [[c]] | p # ps \<Rightarrow> (c # p) # ps))"

fun startswith :: "string \<Rightarrow> string \<Rightarrow> bool" where
  "startswith s [] = True"
| "startswith [] (p # ps) = False"
| "startswith (c # cs) (p # ps) = (c = p \<and> startswith cs ps)"

text \<open>\<^verbatim>\<open>sub in s\<close> on strings.\<close>

fun contains :: "string \<Rightarrow> string \<Rightarrow> bool" where
  "contains [] sub = (sub = [])"
| "contains (c # cs) sub = (startswith (c # cs) sub \<or> contains cs sub)"

text \<open>\<^verbatim>\<open>int(x)\<close> on a float: truncation towards zero.\<close>

definition py_int :: "rat \<Rightarrow> int" where
  "py_int x = (if 0 \<le> x then \<lfloor>x\<rfloor> else \<lceil>x\<rceil>)"

subsection \<open>\<^verbatim>\<open>SimpleFuzzyMatcher.ratio\<close>\<close>

text \<open>
  The arguments are strings at every call site (\<^verbatim>\<open>engineer_features\<close> passes the result
  of \<^verbatim>\<open>str(...)\<close>), so \<^verbatim>\<open>not s1\<close> is emptiness and \<^verbatim>\<open>str(s1)\<close> is the identity.
  The second division has no guard in the source and is modelled with its
  \<^verbatim>\<open>ZeroDivisionError\<close>.
\<close>

definition ratio :: "string \<Rightarrow> string \<Rightarrow> exn + int" where
  "ratio s1 s2 =
     (if s1 = [] \<or> s2 = [] then Inr 0
      else
        let a = strip (lower s1); b = strip (lower s2) in
        if a = b then Inr 100
        else
          let set1 = set (split_ws a); set2 = set (split_ws b);
              intersection = card (set1 \<inter> set2);
              union = card (set1 \<union> set2)
          in
          if union = 0 then Inr 0
          else
            let jaccard = rat_of_nat intersection / rat_of_nat union;
                jaccard = (if contains b a \<or> contains a b then jaccard + 3 / 10 else jaccard);
                common_chars = length (filter (\<lambda>c. c \<in> set b) a);
                longest = max (length a) (length b)
            in
            if longest = 0 then Inl ZeroDivisionError
            else
              let char_similarity = rat_of_nat common_chars / rat_of_nat longest;
                  final_score = min 100 ((jaccard * (6 / 10) + char_similarity * (4 / 10)) * 100)
              in Inr (py_int final_score))"

text \<open>
  The quantities the specification names for the score: the Jaccard ratio of the token
  sets with the flat substring bonus, the character-overlap ratio, and their blend
  scaled to a percentage. They are stated on the lower-cased, trimmed strings.
\<close>

definition normalise :: "string \<Rightarrow> string" where
  "normalise s = strip (lower s)"

definition jaccard_with_substring_bonus :: "string \<Rightarrow> string \<Rightarrow> rat" where
  "jaccard_with_substring_bonus a b =
     rat_of_nat (card (set (split_ws a) \<inter> set (split_ws b))) /
     rat_of_nat (card (set (split_ws a) \<union> set (split_ws b)))
     + (if contains b a \<or> contains a b then 3 / 10 else 0)"

definition char_overlap_ratio :: "string \<Rightarrow> string \<Rightarrow> rat" where
  "char_overlap_ratio a b =
     rat_of_nat (length (filter (\<lambda>c. c \<in> set b) a)) / rat_of_nat (max (length a) (length b))"

definition blended :: "string \<Rightarrow> string \<Rightarrow> rat" where
  "blended a b =
     100 * (6 / 10 * jaccard_with_substring_bonus a b + 4 / 10 * char_overlap_ratio a b)"

definition clamp :: "int \<Rightarrow> int \<Rightarrow> int \<Rightarrow> int" where
  "clamp lo hi x = max lo (min hi x)"



subsection \<open>Python values\<close>

text \<open>
  A float as the amount arithmetic sees it: a finite value (an exact rational), the two
  infinities, or NaN. Every comparison with NaN is false.
\<close>

datatype pyfloat = Finite rat | PosInf | NegInf | NaN

text \<open>The values a decoded JSON document is made of; a dictionary keeps its items in order.\<close>

datatype pyval =
    PNone
  | PBool bool
  | PInt int
  | PFloat pyfloat
  | PStr string
  | PList "pyval list"
  | PDict "(string \<times> pyval) list"

type_synonym pydict = "(string \<times> pyval) list"

text \<open>\<^verbatim>\<open>d.get(key, default)\<close>, \<^verbatim>\<open>key in d\<close> and \<^verbatim>\<open>d[key] = v\<close>.\<close>

definition get :: "pydict \<Rightarrow> string \<Rightarrow> pyval \<Rightarrow> pyval" where
  "get d key dflt = (case map_of d key of None \<Rightarrow> dflt | Some v \<Rightarrow> v)"

definition has_key :: "pydict \<Rightarrow> string \<Rightarrow> bool" where
  "has_key d key = (map_of d key \<noteq> None)"


text \<open>Truth value of an object, as \<^verbatim>\<open>not x\<close> and \<^verbatim>\<open>if x\<close> test it.\<close>

fun truthy :: "pyval \<Rightarrow> bool" where
  "truthy PNone = False"
| "truthy (PBool b) = b"
| "truthy (PInt n) = (n \<noteq> 0)"
| "truthy (PFloat x) = (x \<noteq> Finite 0)"
| "truthy (PStr s) = (s \<noteq> [])"
| "truthy (PList xs) = (xs \<noteq> [])"
| "truthy (PDict d) = (d \<noteq> [])"

fun float_gt_zero :: "pyfloat \<Rightarrow> bool" where
  "float_gt_zero (Finite x) = (0 < x)"
| "float_gt_zero PosInf = True"
| "float_gt_zero NegInf = False"
| "float_gt_zero NaN = False"

text \<open>
  \<^verbatim>\<open>x / y\<close> on floats, for a divisor that is not zero (the source divides only after
  testing \<^verbatim>\<open>pos_amount > 0\<close>).
\<close>

fun float_div :: "pyfloat \<Rightarrow> pyfloat \<Rightarrow> pyfloat" where
  "float_div (Finite x) (Finite y) = Finite (x / y)"
| "float_div (Finite x) PosInf = Finite 0"
| "float_div (Finite x) NegInf = Finite 0"
| "float_div PosInf (Finite y) = (if 0 < y then PosInf else NegInf)"
| "float_div NegInf (Finite y) = (if 0 < y then NegInf else PosInf)"
| "float_div x y = NaN"

text \<open>\<^verbatim>\<open>lo <= x <= hi\<close> for finite bounds.\<close>

fun float_between :: "rat \<Rightarrow> pyfloat \<Rightarrow> rat \<Rightarrow> bool" where
  "float_between lo (Finite x) hi = (lo \<le> x \<and> x \<le> hi)"
| "float_between lo x hi = False"

text \<open>
  \<^verbatim>\<open>round(x, ndigits)\<close> and \<^verbatim>\<open>round(x)\<close>: to the nearest multiple of
  \<open>10 ^ - ndigits\<close>, a tie going to the even neighbour.
\<close>

definition round_half_even :: "rat \<Rightarrow> int" where
  "round_half_even x =
     (let f = \<lfloor>x\<rfloor>; r = x - of_int f
      in if r < 1 / 2 then f else if 1 / 2 < r then f + 1 else if even f then f else f + 1)"

definition py_round :: "rat \<Rightarrow> nat \<Rightarrow> rat" where
  "py_round x ndigits = of_int (round_half_even (x * 10 ^ ndigits)) / 10 ^ ndigits"

subsection \<open>The runtime\<close>

text \<open>
  What the code asks of the Python runtime and standard library, beyond the operations
  modelled above, is a parameter of the model:
  \<^item> \<open>py_repr\<close>: \<^verbatim>\<open>str(v)\<close> for a value that is not a string;
  \<^item> \<open>float_of_string\<close>: \<^verbatim>\<open>float(s)\<close> for a string;
  \<^item> \<open>fromisoformat\<close>, \<open>strptime\<close>: the two \<^verbatim>\<open>datetime\<close> parsers, which raise on a
    string they do not accept;
  \<^item> \<open>seconds_between\<close>: \<^verbatim>\<open>(a - b).total_seconds()\<close>, which raises when one datetime
    carries a UTC offset and the other does not.
  General properties are proved for every runtime; \<open>cpython\<close> below is a runtime for the
  concrete examples.
\<close>

record 'd runtime =
  py_repr :: "pyval \<Rightarrow> string"
  float_of_string :: "string \<Rightarrow> exn + pyfloat"
  fromisoformat :: "string \<Rightarrow> exn + 'd"
  strptime :: "string \<Rightarrow> string \<Rightarrow> exn + 'd"
  seconds_between :: "'d \<Rightarrow> 'd \<Rightarrow> exn + rat"

definition py_str :: "'d runtime \<Rightarrow> pyval \<Rightarrow> string" where
  "py_str rt v = (case v of PStr s \<Rightarrow> s | _ \<Rightarrow> py_repr rt v)"

text \<open>
  \<^verbatim>\<open>float(v)\<close>. An integer beyond the range of a double raises \<^verbatim>\<open>OverflowError\<close>;
  \<^verbatim>\<open>None\<close>, lists and dictionaries raise \<^verbatim>\<open>TypeError\<close>.
\<close>

definition max_float_int :: int where
  "max_float_int = 2 ^ 1024 - 2 ^ 970"

definition py_float :: "'d runtime \<Rightarrow> pyval \<Rightarrow> exn + pyfloat" where
  "py_float rt v =
     (case v of
        PNone \<Rightarrow> Inl TypeError
      | PBool b \<Rightarrow> Inr (Finite (if b then 1 else 0))
      | PInt n \<Rightarrow> if max_float_int \<le> \<bar>n\<bar> then Inl OverflowError else Inr (Finite (of_int n))
      | PFloat x \<Rightarrow> Inr x
      | PStr s \<Rightarrow> float_of_string rt s
      | PList xs \<Rightarrow> Inl TypeError
      | PDict d \<Rightarrow> Inl TypeError)"

subsection \<open>\<^verbatim>\<open>MedSpaReconciliationAPI.parse_date\<close>\<close>

definition date_formats :: "string list" where
  "date_formats = [''%Y-%m-%d'', ''%m/%d/%Y'', ''%d/%m/%Y'', ''%m.%d.%y'', ''%m-%d-%Y'']"

text \<open>The loop over the formats: the first format that parses wins, a failure moves on.\<close>

fun try_formats :: "'d runtime \<Rightarrow> string \<Rightarrow> string list \<Rightarrow> 'd option" where
  "try_formats rt date_str [] = None"
| "try_formats rt date_str (fmt # fmts) =
     (case strptime rt date_str fmt of
        Inr d \<Rightarrow> Some d
      | Inl e \<Rightarrow> try_formats rt date_str fmts)"

definition replace_char :: "char \<Rightarrow> char \<Rightarrow> string \<Rightarrow> string" where
  "replace_char old new s = map (\<lambda>c. if c = old then new else c) s"

text \<open>The body of the outer \<^verbatim>\<open>try\<close>.\<close>

definition parse_date_body :: "'d runtime \<Rightarrow> pyval \<Rightarrow> exn + 'd option" where
  "parse_date_body rt date_str =
     (let date_str = strip (py_str rt date_str) in
      if CHR ''T'' \<in> set date_str \<or> CHR '' '' \<in> set date_str
      then
        (case split_on CHR ''.'' (replace_char CHR ''T'' CHR '' '' date_str) of
           [] \<Rightarrow> Inl IndexError
         | head # rest \<Rightarrow>
             (case fromisoformat rt head of Inl e \<Rightarrow> Inl e | Inr d \<Rightarrow> Inr (Some d)))
      else Inr (try_formats rt date_str date_formats))"

definition parse_date :: "'d runtime \<Rightarrow> pyval \<Rightarrow> exn + 'd option" where
  "parse_date rt date_str =
     (if \<not> truthy date_str then Inr None
      else
        (case parse_date_body rt date_str of
           Inr result \<Rightarrow> Inr result
         | Inl e \<Rightarrow> Inr None))"

subsection \<open>\<^verbatim>\<open>MedSpaReconciliationAPI.engineer_features\<close>\<close>

text \<open>Sequencing of computations that may raise.\<close>

definition then_do :: "exn + 'a \<Rightarrow> ('a \<Rightarrow> exn + 'b) \<Rightarrow> exn + 'b" where
  "then_do m f = (case m of Inl e \<Rightarrow> Inl e | Inr x \<Rightarrow> f x)"

text \<open>
  The \<^verbatim>\<open>features\<close> dictionary maps feature names to numbers; \<^verbatim>\<open>features[key]\<close>
  raises \<^verbatim>\<open>KeyError\<close> on a key that was never stored.
\<close>

type_synonym features = "string \<rightharpoonup> rat"

definition item :: "features \<Rightarrow> string \<Rightarrow> exn + rat" where
  "item d key = (case d key of None \<Rightarrow> Inl (KeyError key) | Some v \<Rightarrow> Inr v)"

definition treatment_keywords :: "(string \<times> string list) list" where
  "treatment_keywords =
     [(''botox'', [''botox'', ''lyft'', ''neurotoxin'', ''dysport'', ''toxin'', ''wrinkle'']),
      (''filler'', [''filler'', ''juvederm'', ''voluma'', ''restylane'', ''radiesse'', ''dermal'']),
      (''coolsculpting'', [''coolsculpting'', ''body sculpting'', ''fat freezing'', ''cryo'']),
      (''laser'', [''laser'', ''ipl'', ''photofacial'', ''hair removal'', ''skin resurfacing'']),
      (''iv'', [''iv'', ''im'', ''injection'', ''vitamin'', ''b-12'', ''wellness'', ''hydration''])]"

text \<open>
  The loop over the categories: the feature starts at 0 and the first category with a
  keyword in both service strings sets it to 1 and leaves the loop.
\<close>

fun treatment_category_loop :: "(string \<times> string list) list \<Rightarrow> string \<Rightarrow> string \<Rightarrow> rat" where
  "treatment_category_loop [] reward_service pos_service = 0"
| "treatment_category_loop ((category, keywords) # rest) reward_service pos_service =
     (let reward_match = list_ex (\<lambda>kw. contains reward_service kw) keywords;
          pos_match = list_ex (\<lambda>kw. contains pos_service kw) keywords
      in if reward_match \<and> pos_match then 1
         else treatment_category_loop rest reward_service pos_service)"

text \<open>The \<^verbatim>\<open>try\<close> block of the date proximity; its \<^verbatim>\<open>except\<close> stores 0.\<close>

definition date_proximity_block :: "'d runtime \<Rightarrow> pydict \<Rightarrow> pydict \<Rightarrow> rat" where
  "date_proximity_block rt reward_txn pos_txn =
     (case parse_date rt (get reward_txn ''date'' (PStr '''')) of
        Inl e \<Rightarrow> 0
      | Inr reward_date \<Rightarrow>
     (case parse_date rt (get pos_txn ''date'' (PStr '''')) of
        Inl e \<Rightarrow> 0
      | Inr pos_date \<Rightarrow>
     (case (reward_date, pos_date) of
        (Some rd, Some pd) \<Rightarrow>
          (case seconds_between rt rd pd of
             Inl e \<Rightarrow> 0
           | Inr seconds \<Rightarrow>
               let hours_diff = \<bar>seconds / 3600\<bar> in max 0 (1 - hours_diff / 168))
      | _ \<Rightarrow> 0)))"

text \<open>The \<^verbatim>\<open>try\<close> block of the amount validation; its \<^verbatim>\<open>except\<close> stores 0.\<close>

definition amount_ratio_block :: "'d runtime \<Rightarrow> pydict \<Rightarrow> pydict \<Rightarrow> rat" where
  "amount_ratio_block rt reward_txn pos_txn =
     (case py_float rt (get reward_txn ''amount'' (PInt 0)) of
        Inl e \<Rightarrow> 0
      | Inr reward_amount \<Rightarrow>
     (case py_float rt (get pos_txn ''amount'' (PInt 0)) of
        Inl e \<Rightarrow> 0
      | Inr pos_amount \<Rightarrow>
          if float_gt_zero pos_amount
          then
            (let amount_ratio = float_div reward_amount pos_amount
             in if float_between (5 / 100) amount_ratio (5 / 10) then 1 else 0)
          else 0))"

definition engineer_features :: "'d runtime \<Rightarrow> pydict \<Rightarrow> pydict \<Rightarrow> exn + features" where
  "engineer_features rt reward_txn pos_txn =
     (let features = Map.empty;
          reward_name = strip (lower (py_str rt (get reward_txn ''customer_name'' (PStr ''''))));
          pos_name = strip (lower (py_str rt (get pos_txn ''customer_name'' (PStr ''''))));
          pos_name =
            (if CHR '','' \<in> set pos_name \<and> CHR '','' \<notin> set reward_name
             then
               (let parts = split_on CHR '','' pos_name
                in if length parts = 2 then strip (parts ! 1) @ '' '' @ strip (parts ! 0)
                   else pos_name)
             else pos_name)
      in
      then_do (ratio reward_name pos_name) (\<lambda>name_ratio.
      let features = features(''name_similarity'' \<mapsto> of_int name_ratio / 100);
          reward_service = lower (py_str rt (get reward_txn ''service'' (PStr '''')));
          pos_service = lower (py_str rt (get pos_txn ''service'' (PStr '''')))
      in
      then_do (ratio reward_service pos_service) (\<lambda>service_ratio.
      let features = features(''service_similarity'' \<mapsto> of_int service_ratio / 100);
          features = features(''treatment_category_match'' \<mapsto>
                       treatment_category_loop treatment_keywords reward_service pos_service);
          features = features(''date_proximity'' \<mapsto> date_proximity_block rt reward_txn pos_txn);
          features = features(''amount_ratio_valid'' \<mapsto> amount_ratio_block rt reward_txn pos_txn)
      in
      then_do (item features ''name_similarity'') (\<lambda>name_similarity.
      then_do (item features ''service_similarity'') (\<lambda>service_similarity.
      then_do (item features ''date_proximity'') (\<lambda>date_proximity.
      then_do (item features ''amount_ratio_valid'') (\<lambda>amount_ratio_valid.
      Inr (features(''overall_confidence'' \<mapsto>
             name_similarity * (4 / 10) + service_similarity * (3 / 10)
             + date_proximity * (2 / 10) + amount_ratio_valid * (1 / 10))))))))))"

subsection \<open>\<^verbatim>\<open>MedSpaReconciliationAPI.predict_match\<close>\<close>

text \<open>
  The returned dictionary. \<open>processing_timestamp\<close> is \<^verbatim>\<open>datetime.now().isoformat()\<close>:
  the clock is read at every call, and its reading \<open>now\<close> is an input of the model.
\<close>

record match_result =
  match_probability :: rat
  predicted_match :: nat
  confidence_level :: string
  recommendation :: string
  threshold_used :: rat
  feature_analysis :: features
  processing_timestamp :: string
  api_version :: string

definition predict_match ::
  "'d runtime \<Rightarrow> string \<Rightarrow> pydict \<Rightarrow> pydict \<Rightarrow> rat \<Rightarrow> exn + match_result" where
  "predict_match rt now reward_txn pos_txn threshold =
     then_do (engineer_features rt reward_txn pos_txn) (\<lambda>features.
     then_do (item features ''overall_confidence'') (\<lambda>probability.
     then_do (item features ''name_similarity'') (\<lambda>name_similarity.
     then_do (if 8 / 10 < name_similarity
              then then_do (item features ''treatment_category_match'') (\<lambda>m. Inr (m = 1))
              else Inr False) (\<lambda>strong_indicators.
     let probability = (if strong_indicators then min 1 (probability + 2 / 10) else probability)
     in
     then_do (item features ''date_proximity'') (\<lambda>date_proximity.
     let probability = (if 8 / 10 < date_proximity then min 1 (probability + 1 / 10)
                        else probability);
         (confidence, recommendation) =
            (if 95 / 100 \<le> probability then (''High'', ''Auto-Accept'')
             else if 80 / 100 \<le> probability then (''Medium'', ''Manual Review'')
             else (''Low'', ''Likely No Match''))
     in
     then_do (item features ''name_similarity'') (\<lambda>f_name.
     then_do (item features ''service_similarity'') (\<lambda>f_service.
     then_do (item features ''date_proximity'') (\<lambda>f_date.
     then_do (item features ''amount_ratio_valid'') (\<lambda>f_amount.
     then_do (item features ''treatment_category_match'') (\<lambda>f_category.
     then_do (item features ''overall_confidence'') (\<lambda>f_overall.
     Inr \<lparr> match_probability = py_round probability 4,
           predicted_match = (if threshold \<le> probability then 1 else 0),
           confidence_level = confidence,
           recommendation = recommendation,
           threshold_used = threshold,
           feature_analysis =
             [''name_similarity'' \<mapsto> py_round f_name 3,
              ''service_similarity'' \<mapsto> py_round f_service 3,
              ''date_proximity'' \<mapsto> py_round f_date 3,
              ''amount_ratio_valid'' \<mapsto> f_amount,
              ''treatment_category_match'' \<mapsto> f_category,
              ''overall_confidence'' \<mapsto> py_round f_overall 3],
           processing_timestamp = now,
           api_version = ''1.0.0-final-cors-fixed'' \<rparr>)))))))))))"

text \<open>
  The probability after the two boosts, as the claims speak of it: the overall
  confidence, plus 0.2 when the names are similar and the treatment categories match,
  plus 0.1 when the dates are close, each sum capped at 1.
\<close>

definition boosted_probability :: "rat \<Rightarrow> rat \<Rightarrow> rat \<Rightarrow> rat \<Rightarrow> rat" where
  "boosted_probability overall name_sim category_match date_prox =
     (let p = (if 8 / 10 < name_sim \<and> category_match = 1 then min 1 (overall + 2 / 10)
               else overall)
      in if 8 / 10 < date_prox then min 1 (p + 1 / 10) else p)"

definition confidence_bucket :: "rat \<Rightarrow> string \<times> string" where
  "confidence_bucket p =
     (if 95 / 100 \<le> p then (''High'', ''Auto-Accept'')
      else if 80 / 100 \<le> p then (''Medium'', ''Manual Review'')
      else (''Low'', ''Likely No Match''))"

subsection \<open>The \<^verbatim>\<open>/batch-predict\<close> handler\<close>

text \<open>
  An entry of the \<^verbatim>\<open>results\<close> list is either the dictionary \<^verbatim>\<open>predict_match\<close>
  returned, with its \<^verbatim>\<open>pair_index\<close> added, or the error dictionary of the inner
  \<^verbatim>\<open>except\<close>, which carries \<^verbatim>\<open>pair_index\<close>, \<^verbatim>\<open>error\<close> and three constants.
\<close>

datatype entry = Scored nat match_result | Failed nat exn



fun entry_match_probability :: "entry \<Rightarrow> rat" where
  "entry_match_probability (Scored i r) = match_probability r"
| "entry_match_probability (Failed i e) = 0"

fun entry_confidence_level :: "entry \<Rightarrow> string" where
  "entry_confidence_level (Scored i r) = confidence_level r"
| "entry_confidence_level (Failed i e) = ''Error''"







text \<open>The decimal digits of a number, as an f-string renders an index.\<close>

fun show_nat :: "nat \<Rightarrow> string" where
  "show_nat n =
     (if n < 10 then [char_of (48 + n)]
      else show_nat (n div 10) @ [char_of (48 + n mod 10)])"

declare show_nat.simps [simp del]










subsection \<open>A runtime for the examples\<close>

text \<open>
  A naive \<^verbatim>\<open>datetime\<close> (no UTC offset; the fraction of a second is cut off by
  \<^verbatim>\<open>parse_date\<close> before parsing).
\<close>

record datetime =
  dt_year :: nat
  dt_month :: nat
  dt_day :: nat
  dt_hour :: nat
  dt_minute :: nat
  dt_second :: nat

definition is_digit :: "char \<Rightarrow> bool" where
  "is_digit c = (let n = (of_char c :: nat) in 48 \<le> n \<and> n \<le> 57)"

definition number_of :: "string \<Rightarrow> nat" where
  "number_of s = foldl (\<lambda>acc c. 10 * acc + (of_char c - 48)) 0 s"

definition is_leap :: "nat \<Rightarrow> bool" where
  "is_leap y = (y mod 4 = 0 \<and> (y mod 100 \<noteq> 0 \<or> y mod 400 = 0))"

definition days_in_month :: "nat \<Rightarrow> nat \<Rightarrow> nat" where
  "days_in_month y m =
     (if m = 2 then (if is_leap y then 29 else 28)
      else if m = 4 \<or> m = 6 \<or> m = 9 \<or> m = 11 then 30 else 31)"

text \<open>The constructor \<^verbatim>\<open>datetime(y, m, d, H, M, S)\<close> with its range checks.\<close>

definition make_datetime :: "nat \<Rightarrow> nat \<Rightarrow> nat \<Rightarrow> nat \<Rightarrow> nat \<Rightarrow> nat \<Rightarrow> exn + datetime" where
  "make_datetime y m d H M S =
     (if 1 \<le> y \<and> y \<le> 9999 \<and> 1 \<le> m \<and> m \<le> 12 \<and> 1 \<le> d \<and> d \<le> days_in_month y m
         \<and> H < 24 \<and> M < 60 \<and> S < 60
      then Inr \<lparr> dt_year = y, dt_month = m, dt_day = d,
                 dt_hour = H, dt_minute = M, dt_second = S \<rparr>
      else Inl (ValueError ''value out of range''))"

text \<open>Days from 0001-01-01, and seconds from its midnight.\<close>

definition days_before_year :: "nat \<Rightarrow> nat" where
  "days_before_year y = (let p = y - 1 in p * 365 + p div 4 - p div 100 + p div 400)"

definition days_before_month :: "nat \<Rightarrow> nat \<Rightarrow> nat" where
  "days_before_month y m = sum_list (map (days_in_month y) [1..<m])"

definition to_ordinal :: "datetime \<Rightarrow> nat" where
  "to_ordinal t = days_before_year (dt_year t) + days_before_month (dt_year t) (dt_month t) + dt_day t"

definition to_seconds :: "datetime \<Rightarrow> int" where
  "to_seconds t =
     int (to_ordinal t) * 86400 + int (dt_hour t) * 3600 + int (dt_minute t) * 60 + int (dt_second t)"

text \<open>
  \<^verbatim>\<open>datetime.strptime\<close> for formats made of \<^verbatim>\<open>%Y\<close>, \<^verbatim>\<open>%m\<close>, \<^verbatim>\<open>%d\<close>,
  \<^verbatim>\<open>%y\<close> and literal characters. A directive matches as its regular expression does:
  \<^verbatim>\<open>%Y\<close> four digits, \<^verbatim>\<open>%y\<close> two digits, \<^verbatim>\<open>%m\<close> and \<^verbatim>\<open>%d\<close> two digits in
  range or else one digit from 1 to 9, the longer alternative first.
\<close>

datatype directive = Year4 | Year2 | Month | Day | Literal char | Unsupported

fun directives :: "string \<Rightarrow> directive list" where
  "directives [] = []"
| "directives [c] = (if c = CHR ''%'' then [Unsupported] else [Literal c])"
| "directives (c # d # cs) =
     (if c = CHR ''%''
      then (if d = CHR ''Y'' then Year4 else if d = CHR ''y'' then Year2
            else if d = CHR ''m'' then Month else if d = CHR ''d'' then Day
            else Unsupported) # directives cs
      else Literal c # directives (d # cs))"

definition two_digits :: "string \<Rightarrow> nat option" where
  "two_digits s =
     (case s of
        a # b # rest \<Rightarrow> if is_digit a \<and> is_digit b then Some (number_of [a, b]) else None
      | _ \<Rightarrow> None)"

definition one_digit :: "string \<Rightarrow> nat option" where
  "one_digit s =
     (case s of
        a # rest \<Rightarrow> if is_digit a \<and> a \<noteq> CHR ''0'' then Some (number_of [a]) else None
      | _ \<Rightarrow> None)"

text \<open>The fields found so far are (year, month, day), starting from 1900-01-01.\<close>

fun match_directives :: "directive list \<Rightarrow> string \<Rightarrow> nat \<times> nat \<times> nat \<Rightarrow> (nat \<times> nat \<times> nat) option" where
  "match_directives [] s ymd = (if s = [] then Some ymd else None)"
| "match_directives (Literal c # ds) s ymd =
     (case s of x # xs \<Rightarrow> if x = c then match_directives ds xs ymd else None | [] \<Rightarrow> None)"
| "match_directives (Year4 # ds) s (y, m, d) =
     (if 4 \<le> length s \<and> list_all is_digit (take 4 s)
      then match_directives ds (drop 4 s) (number_of (take 4 s), m, d) else None)"
| "match_directives (Year2 # ds) s (y, m, d) =
     (case two_digits s of
        Some n \<Rightarrow> match_directives ds (drop 2 s) (if n \<le> 68 then 2000 + n else 1900 + n, m, d)
      | None \<Rightarrow> None)"
| "match_directives (Month # ds) s (y, m, d) =
     (let long =
            (case two_digits s of
               Some n \<Rightarrow> if 1 \<le> n \<and> n \<le> 12 then match_directives ds (drop 2 s) (y, n, d)
                         else None
             | None \<Rightarrow> None)
      in case long of
           Some r \<Rightarrow> Some r
         | None \<Rightarrow>
             (case one_digit s of
                Some n \<Rightarrow> match_directives ds (drop 1 s) (y, n, d)
              | None \<Rightarrow> None))"
| "match_directives (Day # ds) s (y, m, d) =
     (let long =
            (case two_digits s of
               Some n \<Rightarrow> if 1 \<le> n \<and> n \<le> 31 then match_directives ds (drop 2 s) (y, m, n)
                         else None
             | None \<Rightarrow> None)
      in case long of
           Some r \<Rightarrow> Some r
         | None \<Rightarrow>
             (case one_digit s of
                Some n \<Rightarrow> match_directives ds (drop 1 s) (y, m, n)
              | None \<Rightarrow> None))"
| "match_directives (Unsupported # ds) s ymd = None"

definition model_strptime :: "string \<Rightarrow> string \<Rightarrow> exn + datetime" where
  "model_strptime date_string fmt =
     (case match_directives (directives fmt) date_string (1900, 1, 1) of
        None \<Rightarrow> Inl (ValueError ''time data does not match format'')
      | Some (y, m, d) \<Rightarrow> make_datetime y m d 0 0 0)"

text \<open>
  \<^verbatim>\<open>datetime.fromisoformat\<close> on the forms \<^verbatim>\<open>YYYY-MM-DD\<close>, and that date followed by
  one separator character and \<^verbatim>\<open>HH\<close>, \<^verbatim>\<open>HH:MM\<close> or \<^verbatim>\<open>HH:MM:SS\<close>. Every other
  string is refused; the forms with a UTC offset, which the library accepts, are not
  part of this runtime.
\<close>

definition iso_time :: "string \<Rightarrow> (nat \<times> nat \<times> nat) option" where
  "iso_time s =
     (if length s = 2 \<and> list_all is_digit s then Some (number_of s, 0, 0)
      else if length s = 5 \<and> s ! 2 = CHR '':'' \<and> list_all is_digit (take 2 s @ drop 3 s)
        then Some (number_of (take 2 s), number_of (drop 3 s), 0)
      else if length s = 8 \<and> s ! 2 = CHR '':'' \<and> s ! 5 = CHR '':''
              \<and> list_all is_digit (take 2 s @ take 2 (drop 3 s) @ drop 6 s)
        then Some (number_of (take 2 s), number_of (take 2 (drop 3 s)), number_of (drop 6 s))
      else None)"

definition model_fromisoformat :: "string \<Rightarrow> exn + datetime" where
  "model_fromisoformat s =
     (if length s < 10 \<or> s ! 4 \<noteq> CHR ''-'' \<or> s ! 7 \<noteq> CHR ''-''
         \<or> \<not> list_all is_digit (take 4 s @ take 2 (drop 5 s) @ take 2 (drop 8 s))
      then Inl (ValueError ''Invalid isoformat string'')
      else
        let y = number_of (take 4 s); m = number_of (take 2 (drop 5 s));
            d = number_of (take 2 (drop 8 s))
        in if length s = 10 then make_datetime y m d 0 0 0
           else
             (case iso_time (drop 11 s) of
                None \<Rightarrow> Inl (ValueError ''Invalid isoformat string'')
              | Some (H, M, S) \<Rightarrow> make_datetime y m d H M S))"

definition model_seconds_between :: "datetime \<Rightarrow> datetime \<Rightarrow> exn + rat" where
  "model_seconds_between a b = Inr (of_int (to_seconds a - to_seconds b))"

text \<open>
  \<^verbatim>\<open>str\<close> of \<^verbatim>\<open>None\<close>, of a boolean and of an integer; the examples apply it to no
  other value (floats, lists and dictionaries are rendered as their type name only).
\<close>

definition show_int :: "int \<Rightarrow> string" where
  "show_int n = (if n < 0 then CHR ''-'' # show_nat (nat (- n)) else show_nat (nat n))"

definition model_repr :: "pyval \<Rightarrow> string" where
  "model_repr v =
     (case v of
        PNone \<Rightarrow> ''None''
      | PBool b \<Rightarrow> if b then ''True'' else ''False''
      | PInt n \<Rightarrow> show_int n
      | PFloat x \<Rightarrow> ''float''
      | PStr s \<Rightarrow> s
      | PList xs \<Rightarrow> ''list''
      | PDict d \<Rightarrow> ''dict'')"

text \<open>
  \<^verbatim>\<open>float\<close> of a string of decimal digits with an optional sign; the examples apply
  it to no other string.
\<close>

definition model_float_of_string :: "string \<Rightarrow> exn + pyfloat" where
  "model_float_of_string s =
     (let t = strip s;
          (negative, digits) = (case t of c # cs \<Rightarrow> if c = CHR ''-'' then (True, cs)
                                                   else if c = CHR ''+'' then (False, cs)
                                                   else (False, t)
                                | [] \<Rightarrow> (False, []))
      in if digits \<noteq> [] \<and> list_all is_digit digits
         then Inr (Finite (if negative then - of_nat (number_of digits) else of_nat (number_of digits)))
         else Inl (ValueError ''could not convert string to float''))"

definition cpython :: "datetime runtime" where
  "cpython =
     \<lparr> py_repr = model_repr,
       float_of_string = model_float_of_string,
       fromisoformat = model_fromisoformat,
       strptime = model_strptime,
       seconds_between = model_seconds_between \<rparr>"

subsection \<open>Example inputs\<close>

text \<open>The two records of the \<^verbatim>\<open>/test\<close> endpoint.\<close>

definition sample_reward :: pydict where
  "sample_reward =
     [(''customer_name'', PStr ''Sarah Johnson''),
      (''service'', PStr ''Botox Treatment''),
      (''amount'', PFloat (Finite 35)),
      (''date'', PStr ''2024-08-15'')]"

definition sample_pos :: pydict where
  "sample_pos =
     [(''customer_name'', PStr ''Johnson, Sarah''),
      (''service'', PStr ''Neurotoxin Injection''),
      (''amount'', PFloat (Finite 350)),
      (''date'', PStr ''2024-08-15 14:30:00'')]"


text \<open>Two records that carry an amount and nothing else.\<close>

definition amount_only_reward :: pydict where
  "amount_only_reward = [(''amount'', PFloat (Finite 35))]"

definition amount_only_pos :: pydict where
  "amount_only_pos = [(''amount'', PFloat (Finite 350))]"





subsection \<open>Notions used to state the properties\<close>

text \<open>The dictionary \<^verbatim>\<open>engineer_features\<close> builds, from the five computed features.\<close>

definition feature_map :: "rat \<Rightarrow> rat \<Rightarrow> rat \<Rightarrow> rat \<Rightarrow> rat \<Rightarrow> features" where
  "feature_map name_sim service_sim category_match date_prox amount_valid =
     [''name_similarity'' \<mapsto> name_sim,
      ''service_similarity'' \<mapsto> service_sim,
      ''treatment_category_match'' \<mapsto> category_match,
      ''date_proximity'' \<mapsto> date_prox,
      ''amount_ratio_valid'' \<mapsto> amount_valid,
      ''overall_confidence'' \<mapsto>
         name_sim * (4 / 10) + service_sim * (3 / 10) + date_prox * (2 / 10)
         + amount_valid * (1 / 10)]"

definition feature_names :: "string set" where
  "feature_names =
     {''name_similarity'', ''service_similarity'', ''treatment_category_match'',
      ''date_proximity'', ''amount_ratio_valid'', ''overall_confidence''}"

text \<open>A float that is less than or equal to zero.\<close>

fun float_le_zero :: "pyfloat \<Rightarrow> bool" where
  "float_le_zero (Finite x) = (x \<le> 0)"
| "float_le_zero NegInf = True"
| "float_le_zero PosInf = False"
| "float_le_zero NaN = False"

text \<open>
  A parse failure of \<^verbatim>\<open>parse_date\<close>: the value is empty, or it looks like an ISO
  string and \<^verbatim>\<open>fromisoformat\<close> refuses it, or it does not and every format is refused.
\<close>

definition iso_like :: "string \<Rightarrow> bool" where
  "iso_like s = (CHR ''T'' \<in> set s \<or> CHR '' '' \<in> set s)"

definition parse_fails :: "'d runtime \<Rightarrow> pyval \<Rightarrow> bool" where
  "parse_fails rt v =
     (\<not> truthy v \<or>
      (let s = strip (py_str rt v) in
       if iso_like s
       then isl (fromisoformat rt (hd (split_on CHR ''.'' (replace_char CHR ''T'' CHR '' '' s))))
       else list_all (\<lambda>fmt. isl (strptime rt s fmt)) date_formats))"


text \<open>A feature of a computed feature dictionary, and the message of a 400 response.\<close>

definition feature_of :: "exn + features \<Rightarrow> string \<Rightarrow> rat option" where
  "feature_of result key = (case result of Inl e \<Rightarrow> None | Inr f \<Rightarrow> f key)"



section \<open>Properties\<close>

subsection \<open>The similarity primitive\<close>

lemma split_ws_from_Nil:
  "split_ws_from cur s = [] \<longleftrightarrow> cur = [] \<and> (\<forall>c\<in>set s. is_space c)"
  by (induction cur s rule: split_ws_from.induct) auto

lemma split_ws_Nil: "split_ws s = [] \<longleftrightarrow> (\<forall>c\<in>set s. is_space c)"
  by (simp add: split_ws_def split_ws_from_Nil)

lemma strip_has_token: "strip s \<noteq> [] \<Longrightarrow> \<exists>c\<in>set (strip s). \<not> is_space c"
proof -
  assume ne: "strip s \<noteq> []"
  let ?t = "dropWhile is_space (rev (dropWhile is_space s))"
  from ne have t: "?t \<noteq> []" by (simp add: strip_def)
  then have "\<not> is_space (hd ?t)" by (rule hd_dropWhile)
  moreover from t have "hd ?t \<in> set ?t" by simp
  ultimately show ?thesis unfolding strip_def by (metis set_rev)
qed

lemma split_ws_strip_Nil: "split_ws (strip s) = [] \<longleftrightarrow> strip s = []"
  using strip_has_token [of s] by (auto simp: split_ws_Nil)

lemma blended_nonneg: "0 \<le> blended a b"
  by (simp add: blended_def jaccard_with_substring_bonus_def char_overlap_ratio_def)

lemma py_int_min: "0 \<le> x \<Longrightarrow> py_int (min 100 x) = clamp 0 100 (py_int x)"
  unfolding py_int_def clamp_def by (auto simp: min_def max_def floor_le_iff le_floor_iff)

text \<open>
  On two distinct normalised strings neither guard of \<open>ratio\<close> fires: the token union is
  not empty and the longer string has a character, so no division fails.
\<close>

lemma ratio_blended:
  assumes "a \<noteq> []" and "b \<noteq> []" and "normalise a \<noteq> normalise b"
  shows "ratio a b = Inr (py_int (min 100 (blended (normalise a) (normalise b))))"
proof -
  let ?a = "normalise a" and ?b = "normalise b"
  from assms(3) have some: "?a \<noteq> [] \<or> ?b \<noteq> []" by auto
  then have "split_ws ?a \<noteq> [] \<or> split_ws ?b \<noteq> []"
    by (auto simp: normalise_def split_ws_strip_Nil)
  then have union: "card (set (split_ws ?a) \<union> set (split_ws ?b)) \<noteq> 0" by auto
  from some have longest: "max (length ?a) (length ?b) \<noteq> 0" by auto
  have nea: "(a = []) = False" and neb: "(b = []) = False"
    and neq: "(strip (lower a) = strip (lower b)) = False"
    using assms by (simp_all add: normalise_def)
  from union have union':
    "(card (set (split_ws (strip (lower a))) \<union> set (split_ws (strip (lower b)))) = 0) = False"
    by (simp add: normalise_def)
  from longest have longest':
    "(max (length (strip (lower a))) (length (strip (lower b))) = 0) = False"
    by (simp add: normalise_def)
  have "ratio a b = Inr (py_int (min 100 ((jaccard_with_substring_bonus ?a ?b * (6 / 10)
        + char_overlap_ratio ?a ?b * (4 / 10)) * 100)))"
  proof (cases "contains (strip (lower b)) (strip (lower a))
              \<or> contains (strip (lower a)) (strip (lower b))")
    case True
    then have c: "(contains (strip (lower b)) (strip (lower a))
                 \<or> contains (strip (lower a)) (strip (lower b))) = True"
      by simp
    show ?thesis
      by (simp only: ratio_def Let_def normalise_def jaccard_with_substring_bonus_def
          char_overlap_ratio_def nea neb neq union' longest' c if_True if_False simp_thms)
  next
    case False
    then have c: "(contains (strip (lower b)) (strip (lower a))
                 \<or> contains (strip (lower a)) (strip (lower b))) = False"
      by simp
    show ?thesis
      by (simp only: ratio_def Let_def normalise_def jaccard_with_substring_bonus_def
          char_overlap_ratio_def nea neb neq union' longest' c if_True if_False simp_thms
          add_0_right)
  qed
  also have "(jaccard_with_substring_bonus ?a ?b * (6 / 10)
        + char_overlap_ratio ?a ?b * (4 / 10)) * 100 = blended ?a ?b"
    by (simp add: blended_def algebra_simps)
  finally show ?thesis .
qed

text \<open>
  C5 (as stated: \<open>similarity(a, b) = similarity(b, a)\<close> for all strings). The character
  overlap counts the characters of the first argument that occur in the second, with
  repetitions, so the two orders differ: \<open>aa\<close> against \<open>ab\<close> scores 40, \<open>ab\<close> against
  \<open>aa\<close> scores 20.
\<close>

theorem ratio_not_symmetric:
  "ratio ''aa'' ''ab'' = Inr 40 \<and> ratio ''ab'' ''aa'' = Inr 20
   \<and> ratio ''aa'' ''ab'' \<noteq> ratio ''ab'' ''aa''"
  by code_simp

text \<open>
  C5 (amended): the two orders give the same score whenever the number of characters of
  \<open>a\<close> occurring in \<open>b\<close> equals the number of characters of \<open>b\<close> occurring in \<open>a\<close> (both
  lower-cased and trimmed); the empty-input guard, the equality test, the Jaccard ratio,
  the substring bonus and the length of the longer string are symmetric.
\<close>

theorem ratio_symmetric_if:
  assumes "length (filter (\<lambda>c. c \<in> set (normalise b)) (normalise a))
         = length (filter (\<lambda>c. c \<in> set (normalise a)) (normalise b))"
  shows "ratio a b = ratio b a"
proof (cases "normalise a = normalise b")
  case True
  then show ?thesis by (auto simp: ratio_def normalise_def)
next
  case False
  then have "normalise b \<noteq> normalise a" by auto
  with False assms show ?thesis
    unfolding ratio_def normalise_def Let_def
    by (simp add: Int_commute Un_commute max.commute disj_commute)
qed

theorem ratio_symmetric_if_witness:
  "length (filter (\<lambda>c. c \<in> set (normalise ''ba c'')) (normalise ''ab''))
     = length (filter (\<lambda>c. c \<in> set (normalise ''ab'')) (normalise ''ba c''))
   \<and> ratio ''ab'' ''ba c'' = ratio ''ba c'' ''ab'' \<and> ratio ''ab'' ''ba c'' = Inr 20"
proof -
  have h: "length (filter (\<lambda>c. c \<in> set (normalise ''ba c'')) (normalise ''ab''))
     = length (filter (\<lambda>c. c \<in> set (normalise ''ab'')) (normalise ''ba c''))"
    by code_simp
  have v: "ratio ''ab'' ''ba c'' = Inr 20" by code_simp
  from h v ratio_symmetric_if [OF h] show ?thesis by simp
qed




text \<open>
  C7 (as stated: an input that is empty after trimming scores 0). The emptiness guard
  runs before the strings are trimmed: two blanks trim to the same empty string and score
  100, and a blank against \<open>x\<close> earns the substring bonus and scores 18.
\<close>

theorem ratio_whitespace_only:
  "strip '' '' = [] \<and> ratio '' '' '' '' = Inr 100 \<and> ratio '' '' ''x'' = Inr 18
   \<and> ratio '' '' '' '' \<noteq> Inr 0"
  by code_simp

text \<open>
  C7 (amended): an input that is the empty string as passed, before any trimming, scores 0.
\<close>

theorem ratio_empty: "a = [] \<or> b = [] \<Longrightarrow> ratio a b = Inr 0"
  by (auto simp: ratio_def)

theorem ratio_empty_witness:
  "([] = ([] :: string) \<or> ''x'' = []) \<and> ratio [] ''x'' = Inr 0"
  using ratio_empty [of "[]" "''x''"] by simp

subsection \<open>Features, probability and classification\<close>

lemma clamp_range: "0 \<le> clamp 0 100 x \<and> clamp 0 100 x \<le> 100"
  by (simp add: clamp_def)

lemma ratio_total: "\<exists>n. ratio a b = Inr n \<and> 0 \<le> n \<and> n \<le> 100"
proof (cases "a = [] \<or> b = []")
  case True
  then show ?thesis by (auto simp: ratio_def)
next
  case ne: False
  show ?thesis
  proof (cases "normalise a = normalise b")
    case True
    with ne show ?thesis by (simp add: ratio_def normalise_def)
  next
    case False
    with ne have "ratio a b = Inr (clamp 0 100 (py_int (blended (normalise a) (normalise b))))"
      by (simp add: ratio_blended py_int_min blended_nonneg)
    with clamp_range show ?thesis by simp
  qed
qed

lemma treatment_category_loop_cases:
  "treatment_category_loop kws r p = 0 \<or> treatment_category_loop kws r p = 1"
  by (induction kws r p rule: treatment_category_loop.induct) (simp_all add: Let_def)

lemma date_proximity_block_range:
  "0 \<le> date_proximity_block rt a b \<and> date_proximity_block rt a b \<le> 1"
  by (simp add: date_proximity_block_def Let_def split: sum.split option.split)

lemma amount_ratio_block_cases:
  "amount_ratio_block rt a b = 0 \<or> amount_ratio_block rt a b = 1"
  by (simp add: amount_ratio_block_def Let_def split: sum.split)

lemma feature_map_lookup:
  "feature_map n s c d a ''name_similarity'' = Some n"
  "feature_map n s c d a ''service_similarity'' = Some s"
  "feature_map n s c d a ''treatment_category_match'' = Some c"
  "feature_map n s c d a ''date_proximity'' = Some d"
  "feature_map n s c d a ''amount_ratio_valid'' = Some a"
  "feature_map n s c d a ''overall_confidence'' =
     Some (n * (4 / 10) + s * (3 / 10) + d * (2 / 10) + a * (1 / 10))"
  by (simp_all add: feature_map_def)

lemma dom_feature_map: "dom (feature_map n s c d a) = feature_names"
  by (auto simp: feature_map_def feature_names_def)

lemma engineer_features_map:
  "\<exists>n s c. 0 \<le> n \<and> n \<le> 1 \<and> 0 \<le> s \<and> s \<le> 1 \<and> (c = 0 \<or> c = 1)
     \<and> engineer_features rt reward_txn pos_txn =
         Inr (feature_map n s c (date_proximity_block rt reward_txn pos_txn)
                (amount_ratio_block rt reward_txn pos_txn))"
proof -
  let ?rn = "strip (lower (py_str rt (get reward_txn ''customer_name'' (PStr ''''))))"
  let ?pn0 = "strip (lower (py_str rt (get pos_txn ''customer_name'' (PStr ''''))))"
  let ?pn = "if CHR '','' \<in> set ?pn0 \<and> CHR '','' \<notin> set ?rn
             then (if length (split_on CHR '','' ?pn0) = 2
                   then strip (split_on CHR '','' ?pn0 ! 1) @ '' '' @ strip (split_on CHR '','' ?pn0 ! 0)
                   else ?pn0)
             else ?pn0"
  let ?rs = "lower (py_str rt (get reward_txn ''service'' (PStr '''')))"
  let ?ps = "lower (py_str rt (get pos_txn ''service'' (PStr '''')))"
  obtain n where n: "ratio ?rn ?pn = Inr n" "0 \<le> n" "n \<le> 100"
    using ratio_total by blast
  obtain s where s: "ratio ?rs ?ps = Inr s" "0 \<le> s" "s \<le> 100"
    using ratio_total by blast
  let ?c = "treatment_category_loop treatment_keywords ?rs ?ps"
  have "engineer_features rt reward_txn pos_txn =
         Inr (feature_map (of_int n / 100) (of_int s / 100) ?c
                (date_proximity_block rt reward_txn pos_txn)
                (amount_ratio_block rt reward_txn pos_txn))"
    unfolding engineer_features_def Let_def
    by (simp only: n(1) s(1) then_do_def sum.case item_def) (simp add: feature_map_def)
  moreover have "0 \<le> (of_int n / 100 :: rat) \<and> (of_int n / 100 :: rat) \<le> 1"
    using n(2,3) by simp
  moreover have "0 \<le> (of_int s / 100 :: rat) \<and> (of_int s / 100 :: rat) \<le> 1"
    using s(2,3) by simp
  moreover have "?c = 0 \<or> ?c = 1" by (rule treatment_category_loop_cases)
  ultimately show ?thesis by blast
qed


lemma predict_match_known:
  assumes "engineer_features rt reward_txn pos_txn = Inr f"
    and "f ''overall_confidence'' = Some overall"
    and "f ''name_similarity'' = Some n"
    and "f ''service_similarity'' = Some s"
    and "f ''treatment_category_match'' = Some c"
    and "f ''date_proximity'' = Some d"
    and "f ''amount_ratio_valid'' = Some a"
  shows "predict_match rt now reward_txn pos_txn threshold =
      Inr \<lparr> match_probability = py_round (boosted_probability overall n c d) 4,
             predicted_match = (if threshold \<le> boosted_probability overall n c d then 1 else 0),
             confidence_level = fst (confidence_bucket (boosted_probability overall n c d)),
             recommendation = snd (confidence_bucket (boosted_probability overall n c d)),
             threshold_used = threshold,
             feature_analysis =
               [''name_similarity'' \<mapsto> py_round n 3,
                ''service_similarity'' \<mapsto> py_round s 3,
                ''date_proximity'' \<mapsto> py_round d 3,
                ''amount_ratio_valid'' \<mapsto> a,
                ''treatment_category_match'' \<mapsto> c,
                ''overall_confidence'' \<mapsto> py_round overall 3],
             processing_timestamp = now,
             api_version = ''1.0.0-final-cors-fixed'' \<rparr>"
proof -
  have items: "item f ''overall_confidence'' = Inr overall" "item f ''name_similarity'' = Inr n"
    "item f ''service_similarity'' = Inr s" "item f ''treatment_category_match'' = Inr c"
    "item f ''date_proximity'' = Inr d" "item f ''amount_ratio_valid'' = Inr a"
    by (simp_all add: item_def assms)
  show ?thesis
  proof (cases "8 / 10 < n")
    case n: True
    show ?thesis
    proof (cases "c = 1")
      case c: True
      show ?thesis
      proof (cases "8 / 10 < d")
        case True
        with n c show ?thesis
          unfolding predict_match_def assms(1) boosted_probability_def confidence_bucket_def
          by (auto simp add: then_do_def items Let_def min_def)
      next
        case False
        with n c show ?thesis
          unfolding predict_match_def assms(1) boosted_probability_def confidence_bucket_def
          by (auto simp add: then_do_def items Let_def min_def)
      qed
    next
      case c: False
      show ?thesis
      proof (cases "8 / 10 < d")
        case True
        with n c show ?thesis
          unfolding predict_match_def assms(1) boosted_probability_def confidence_bucket_def
          by (auto simp add: then_do_def items Let_def min_def)
      next
        case False
        with n c show ?thesis
          unfolding predict_match_def assms(1) boosted_probability_def confidence_bucket_def
          by (auto simp add: then_do_def items Let_def min_def)
      qed
    qed
  next
    case n: False
    show ?thesis
    proof (cases "8 / 10 < d")
      case True
      with n show ?thesis
        unfolding predict_match_def assms(1) boosted_probability_def confidence_bucket_def
        by (auto simp add: then_do_def items Let_def min_def)
    next
      case False
      with n show ?thesis
        unfolding predict_match_def assms(1) boosted_probability_def confidence_bucket_def
        by (auto simp add: then_do_def items Let_def min_def)
    qed
  qed
qed

lemma predict_match_on_map:
  assumes "engineer_features rt reward_txn pos_txn = Inr (feature_map n s c d a)"
  shows "predict_match rt now reward_txn pos_txn threshold =
      Inr \<lparr> match_probability =
               py_round (boosted_probability
                 (n * (4 / 10) + s * (3 / 10) + d * (2 / 10) + a * (1 / 10)) n c d) 4,
             predicted_match =
               (if threshold \<le> boosted_probability
                  (n * (4 / 10) + s * (3 / 10) + d * (2 / 10) + a * (1 / 10)) n c d
                then 1 else 0),
             confidence_level = fst (confidence_bucket (boosted_probability
                 (n * (4 / 10) + s * (3 / 10) + d * (2 / 10) + a * (1 / 10)) n c d)),
             recommendation = snd (confidence_bucket (boosted_probability
                 (n * (4 / 10) + s * (3 / 10) + d * (2 / 10) + a * (1 / 10)) n c d)),
             threshold_used = threshold,
             feature_analysis =
               [''name_similarity'' \<mapsto> py_round n 3,
                ''service_similarity'' \<mapsto> py_round s 3,
                ''date_proximity'' \<mapsto> py_round d 3,
                ''amount_ratio_valid'' \<mapsto> a,
                ''treatment_category_match'' \<mapsto> c,
                ''overall_confidence'' \<mapsto>
                   py_round (n * (4 / 10) + s * (3 / 10) + d * (2 / 10) + a * (1 / 10)) 3],
             processing_timestamp = now,
             api_version = ''1.0.0-final-cors-fixed'' \<rparr>"
  by (rule predict_match_known [OF assms feature_map_lookup(6) feature_map_lookup(1)
        feature_map_lookup(2) feature_map_lookup(3) feature_map_lookup(4) feature_map_lookup(5)])

lemma round_half_even_bounds:
  assumes "of_int lo \<le> x" and "x \<le> of_int hi"
  shows "lo \<le> round_half_even x \<and> round_half_even x \<le> hi"
proof -
  have lo: "lo \<le> \<lfloor>x\<rfloor>" using assms(1) by (simp add: le_floor_iff)
  have hi: "\<lfloor>x\<rfloor> \<le> hi" using assms(2) by (simp add: floor_le_iff)
  have up: "\<lfloor>x\<rfloor> + 1 \<le> hi" if "x - of_int \<lfloor>x\<rfloor> \<noteq> 0"
  proof -
    from that of_int_floor_le [of x] have "of_int \<lfloor>x\<rfloor> < x" by linarith
    with assms(2) have "(of_int \<lfloor>x\<rfloor> :: rat) < of_int hi" by linarith
    then show ?thesis by simp
  qed
  show ?thesis
    unfolding round_half_even_def Let_def using lo hi up by auto
qed

lemma py_round_unit: "0 \<le> x \<Longrightarrow> x \<le> 1 \<Longrightarrow> 0 \<le> py_round x k \<and> py_round x k \<le> 1"
proof -
  assume x: "0 \<le> x" "x \<le> 1"
  define r where "r = round_half_even (x * 10 ^ k)"
  have "of_int 0 \<le> x * 10 ^ k" using x by simp
  moreover have "x * 10 ^ k \<le> of_int (10 ^ k)" using x by (simp add: mult_left_le_one_le)
  ultimately have r: "0 \<le> r \<and> r \<le> 10 ^ k"
    unfolding r_def by (rule round_half_even_bounds)
  then have "(of_int r :: rat) \<le> of_int (10 ^ k)" by (simp only: of_int_le_iff)
  then have le: "(of_int r :: rat) \<le> 10 ^ k" by simp
  from r have ge: "0 \<le> (of_int r :: rat)" by simp
  have pos: "(0 :: rat) < 10 ^ k" by simp
  have "py_round x k = of_int r / 10 ^ k" by (simp add: py_round_def r_def)
  moreover from ge pos have "0 \<le> (of_int r :: rat) / 10 ^ k" by simp
  moreover from le pos have "(of_int r :: rat) / 10 ^ k \<le> 1" by (simp add: divide_le_eq)
  ultimately show ?thesis by simp
qed

lemma overall_unit:
  fixes n s d a :: rat
  assumes "0 \<le> n" "n \<le> 1" "0 \<le> s" "s \<le> 1" "0 \<le> d" "d \<le> 1" "a = 0 \<or> a = 1"
  shows "0 \<le> n * (4 / 10) + s * (3 / 10) + d * (2 / 10) + a * (1 / 10)"
    and "n * (4 / 10) + s * (3 / 10) + d * (2 / 10) + a * (1 / 10) \<le> 1"
  using assms by auto

lemma boosted_unit:
  assumes "0 \<le> overall" "overall \<le> 1"
  shows "0 \<le> boosted_probability overall n c d \<and> boosted_probability overall n c d \<le> 1"
  using assms by (auto simp: boosted_probability_def Let_def min_def)

text \<open>
  C4: for any two records, any runtime, any clock reading and any threshold,
  \<^verbatim>\<open>engineer_features\<close> returns a dictionary whose \<open>overall_confidence\<close> lies in
  \<open>[0, 1]\<close>, and \<^verbatim>\<open>predict_match\<close> returns a result whose \<open>match_probability\<close>, the
  boosted and rounded probability, lies in \<open>[0, 1]\<close>.
\<close>

theorem confidence_in_unit_interval:
  "\<exists>f c r. engineer_features rt reward_txn pos_txn = Inr f
     \<and> f ''overall_confidence'' = Some c \<and> 0 \<le> c \<and> c \<le> 1
     \<and> predict_match rt now reward_txn pos_txn threshold = Inr r
     \<and> 0 \<le> match_probability r \<and> match_probability r \<le> 1"
proof -
  let ?d = "date_proximity_block rt reward_txn pos_txn"
  let ?a = "amount_ratio_block rt reward_txn pos_txn"
  obtain n s c where ns: "0 \<le> n" "n \<le> 1" "0 \<le> s" "s \<le> 1"
    and f: "engineer_features rt reward_txn pos_txn = Inr (feature_map n s c ?d ?a)"
    using engineer_features_map by blast
  let ?o = "n * (4 / 10) + s * (3 / 10) + ?d * (2 / 10) + ?a * (1 / 10)"
  have o: "0 \<le> ?o" "?o \<le> 1"
    using overall_unit [OF ns _ _ amount_ratio_block_cases] date_proximity_block_range
    by blast+
  let ?p = "boosted_probability ?o n c ?d"
  have "0 \<le> py_round ?p 4 \<and> py_round ?p 4 \<le> 1"
    using boosted_unit [OF o] py_round_unit by blast
  with f o show ?thesis
    by (simp add: predict_match_on_map [OF f] feature_map_lookup)
qed


text \<open>
  C9 (amended): two calls of \<^verbatim>\<open>predict_match\<close> with identical records and threshold
  return results that agree in every field other than \<open>processing_timestamp\<close>, which is
  the clock reading of each call.
\<close>

theorem timestamp_only_difference:
  "\<exists>r. predict_match rt now reward_txn pos_txn threshold = Inr r
     \<and> processing_timestamp r = now
     \<and> predict_match rt now' reward_txn pos_txn threshold
         = Inr (r\<lparr> processing_timestamp := now' \<rparr>)"
proof -
  obtain n s c where
    f: "engineer_features rt reward_txn pos_txn =
          Inr (feature_map n s c (date_proximity_block rt reward_txn pos_txn)
                 (amount_ratio_block rt reward_txn pos_txn))"
    using engineer_features_map by blast
  show ?thesis
    by (simp add: predict_match_on_map [OF f])
qed

lemma split_on_not_Nil: "split_on sep s \<noteq> []"
  by (induction s) (auto split: list.split)

lemma try_formats_None:
  "try_formats rt s fmts = None \<longleftrightarrow> list_all (\<lambda>fmt. isl (strptime rt s fmt)) fmts"
  by (induction fmts) (auto split: sum.split)

text \<open>
  C8: for every value, and so for every string, and every behaviour of the two library
  parsers, \<^verbatim>\<open>parse_date\<close> returns and does not raise; it returns \<^verbatim>\<open>None\<close> exactly
  on a parse failure: an empty value, an ISO-like string that \<^verbatim>\<open>fromisoformat\<close>
  refuses, or a string that none of the five formats parses.
\<close>

theorem parse_date_total:
  "\<exists>r. parse_date rt v = Inr r \<and> (r = None \<longleftrightarrow> parse_fails rt v)"
proof (cases "truthy v")
  case False
  then show ?thesis by (simp add: parse_date_def parse_fails_def)
next
  case True
  let ?s = "strip (py_str rt v)"
  show ?thesis
  proof (cases "iso_like ?s")
    case False
    with True show ?thesis
      by (simp add: parse_date_def parse_date_body_def parse_fails_def iso_like_def
          try_formats_None Let_def)
  next
    case iso: True
    obtain h t where ht: "split_on CHR ''.'' (replace_char CHR ''T'' CHR '' '' ?s) = h # t"
      using split_on_not_Nil by (cases "split_on CHR ''.'' (replace_char CHR ''T'' CHR '' '' ?s)") auto
    show ?thesis
    proof (cases "fromisoformat rt h")
      case (Inl e)
      with True iso ht show ?thesis
        by (simp add: parse_date_def parse_date_body_def parse_fails_def iso_like_def Let_def)
    next
      case (Inr d)
      with True iso ht show ?thesis
        by (simp add: parse_date_def parse_date_body_def parse_fails_def iso_like_def Let_def)
    qed
  qed
qed

lemma parse_fails_examples:
  "parse_fails cpython (PStr '''')" "parse_fails cpython (PStr ''garbage'')"
  "parse_fails cpython (PStr ''15-08-2024x'')" "parse_fails cpython (PStr ''2024-13-45T25:61:00'')"
  "parse_fails cpython (PStr ''next tuesday'')" "\<not> parse_fails cpython (PStr ''2024-08-15 14:30:00'')"
  by code_simp+

theorem parse_date_total_witness:
  "parse_date cpython (PStr '''') = Inr None
   \<and> parse_date cpython (PStr ''garbage'') = Inr None
   \<and> parse_date cpython (PStr ''15-08-2024x'') = Inr None
   \<and> parse_date cpython (PStr ''2024-13-45T25:61:00'') = Inr None
   \<and> parse_date cpython (PStr ''next tuesday'') = Inr None"
  using parse_date_total [of cpython "PStr ''''"] parse_date_total [of cpython "PStr ''garbage''"]
    parse_date_total [of cpython "PStr ''15-08-2024x''"]
    parse_date_total [of cpython "PStr ''2024-13-45T25:61:00''"]
    parse_date_total [of cpython "PStr ''next tuesday''"]
    parse_fails_examples
  by auto

lemma get_absent: "\<not> has_key d key \<Longrightarrow> get d key dflt = dflt"
  by (simp add: has_key_def get_def)

lemma max_float_int_pos: "0 < max_float_int"
proof -
  have "(2::int) ^ 970 < 2 ^ 1024" by (rule power_strict_increasing) simp_all
  then show ?thesis by (simp add: max_float_int_def)
qed

lemma py_float_zero: "py_float rt (PInt 0) = Inr (Finite 0)"
  using max_float_int_pos by (simp add: py_float_def)

lemma float_le_zero_not_gt: "float_le_zero x \<Longrightarrow> \<not> float_gt_zero x"
  by (cases x) auto

lemma float_between_div_zero:
  "0 < lo \<Longrightarrow> float_gt_zero y \<Longrightarrow> \<not> float_between lo (float_div (Finite 0) y) hi"
  by (cases y) auto

lemma amount_ratio_block_nonpositive:
  "py_float rt (get pos_txn ''amount'' (PInt 0)) = Inr x \<Longrightarrow> float_le_zero x
   \<Longrightarrow> amount_ratio_block rt reward_txn pos_txn = 0"
  by (simp add: amount_ratio_block_def float_le_zero_not_gt split: sum.split)

lemma amount_ratio_block_absent:
  "\<not> has_key reward_txn ''amount'' \<or> \<not> has_key pos_txn ''amount''
   \<Longrightarrow> amount_ratio_block rt reward_txn pos_txn = 0"
  by (auto simp: amount_ratio_block_def get_absent py_float_zero float_between_div_zero
      split: sum.split)

lemma parse_date_absent: "parse_date rt (PStr []) = Inr None"
  by (simp add: parse_date_def)

lemma date_proximity_block_absent:
  "\<not> has_key reward_txn ''date'' \<or> \<not> has_key pos_txn ''date''
   \<Longrightarrow> date_proximity_block rt reward_txn pos_txn = 0"
  by (auto simp: date_proximity_block_def get_absent parse_date_absent
      split: sum.split option.split)

text \<open>
  C10 (amended): \<^verbatim>\<open>engineer_features\<close> returns for all dictionaries, with all six
  features present. \<open>amount_ratio_valid\<close> is 0 whenever the parsed point-of-sale amount
  is less than or equal to 0, and whenever the amount field is absent from either record
  (an absent amount counts as 0). \<open>date_proximity\<close> is 0 whenever the date field is
  absent from either record.
\<close>

theorem engineer_features_defaults:
  "\<exists>f. engineer_features rt reward_txn pos_txn = Inr f \<and> dom f = feature_names
     \<and> ((\<exists>x. py_float rt (get pos_txn ''amount'' (PInt 0)) = Inr x \<and> float_le_zero x)
          \<longrightarrow> f ''amount_ratio_valid'' = Some 0)
     \<and> (\<not> has_key reward_txn ''amount'' \<or> \<not> has_key pos_txn ''amount''
          \<longrightarrow> f ''amount_ratio_valid'' = Some 0)
     \<and> (\<not> has_key reward_txn ''date'' \<or> \<not> has_key pos_txn ''date''
          \<longrightarrow> f ''date_proximity'' = Some 0)"
proof -
  obtain n s c where
    f: "engineer_features rt reward_txn pos_txn =
          Inr (feature_map n s c (date_proximity_block rt reward_txn pos_txn)
                 (amount_ratio_block rt reward_txn pos_txn))"
    using engineer_features_map by blast
  show ?thesis
    unfolding f
    using amount_ratio_block_nonpositive [of rt pos_txn _ reward_txn]
      amount_ratio_block_absent [of reward_txn pos_txn rt]
      date_proximity_block_absent [of reward_txn pos_txn rt]
    by (auto simp: dom_feature_map feature_map_lookup)
qed

theorem engineer_features_defaults_witness:
  "py_float cpython (get [] ''amount'' (PInt 0)) = Inr (Finite 0) \<and> float_le_zero (Finite 0)
   \<and> \<not> has_key [] ''amount'' \<and> \<not> has_key [] ''date''
   \<and> (\<exists>f. engineer_features cpython [] [] = Inr f \<and> dom f = feature_names
          \<and> f ''amount_ratio_valid'' = Some 0 \<and> f ''date_proximity'' = Some 0)"
proof -
  have a: "py_float cpython (get [] ''amount'' (PInt 0)) = Inr (Finite 0)"
    by (simp add: get_def py_float_zero)
  have k: "\<not> has_key [] ''amount''" "\<not> has_key [] ''date''"
    by (simp_all add: has_key_def)
  from engineer_features_defaults [of cpython "[]" "[]"] a k show ?thesis
    by auto
qed

text \<open>
  C10 (as stated: \<open>amount_ratio_valid\<close> is 0 whenever the amount or the date field is
  absent). An absent date lowers \<open>date_proximity\<close>, not \<open>amount_ratio_valid\<close>: two
  records without a date and with the amounts 35 and 350 have \<open>amount_ratio_valid = 1\<close>.
\<close>

theorem amount_valid_without_dates:
  "\<not> has_key amount_only_reward ''date'' \<and> \<not> has_key amount_only_pos ''date''
   \<and> feature_of (engineer_features cpython amount_only_reward amount_only_pos)
        ''amount_ratio_valid'' = Some 1"
  by code_simp

subsection \<open>The sample records\<close>

lemma sample_names:
  "strip (lower (py_str cpython (get sample_reward ''customer_name'' (PStr '''')))) = ''sarah johnson''"
  "strip (lower (py_str cpython (get sample_pos ''customer_name'' (PStr '''')))) = ''johnson, sarah''"
  "lower (py_str cpython (get sample_reward ''service'' (PStr ''''))) = ''botox treatment''"
  "lower (py_str cpython (get sample_pos ''service'' (PStr ''''))) = ''neurotoxin injection''"
  by code_simp+

lemma sample_reorder:
  "split_on CHR '','' ''johnson, sarah'' = [''johnson'', '' sarah'']"
  "strip '' sarah'' = ''sarah''" "strip ''johnson'' = ''johnson''"
  by code_simp+

lemma sample_ratios:
  "ratio ''sarah johnson'' ''sarah johnson'' = Inr 100"
  "ratio ''botox treatment'' ''neurotoxin injection'' = Inr 24"
  by code_simp+

lemma sample_category:
  "treatment_category_loop treatment_keywords ''botox treatment'' ''neurotoxin injection'' = 1"
  by code_simp

lemma sample_amount: "amount_ratio_block cpython sample_reward sample_pos = 1"
  by code_simp

lemma sample_date_reward:
  "parse_date cpython (get sample_reward ''date'' (PStr '''')) =
     Inr (Some \<lparr> dt_year = 2024, dt_month = 8, dt_day = 15,
                  dt_hour = 0, dt_minute = 0, dt_second = 0 \<rparr>)"
  by code_simp

lemma sample_date_pos:
  "parse_date cpython (get sample_pos ''date'' (PStr '''')) =
     Inr (Some \<lparr> dt_year = 2024, dt_month = 8, dt_day = 15,
                  dt_hour = 14, dt_minute = 30, dt_second = 0 \<rparr>)"
  by code_simp

lemma sample_seconds:
  "seconds_between cpython
     \<lparr> dt_year = 2024, dt_month = 8, dt_day = 15, dt_hour = 0, dt_minute = 0, dt_second = 0 \<rparr>
     \<lparr> dt_year = 2024, dt_month = 8, dt_day = 15, dt_hour = 14, dt_minute = 30, dt_second = 0 \<rparr>
   = Inr (- 52200)"
  by (simp add: cpython_def model_seconds_between_def to_seconds_def to_ordinal_def)

lemma sample_date_proximity: "date_proximity_block cpython sample_reward sample_pos = 307 / 336"
  unfolding date_proximity_block_def sample_date_reward sample_date_pos
  by (simp add: sample_seconds)

lemma sample_engineered:
  "engineer_features cpython sample_reward sample_pos = Inr (feature_map 1 (24 / 100) 1 (307 / 336) 1)"
  unfolding engineer_features_def sample_names
  by (simp add: sample_reorder sample_ratios sample_category sample_amount sample_date_proximity
      then_do_def item_def feature_map_def Let_def)

text \<open>
  C3: for the two records of the \<^verbatim>\<open>/test\<close> endpoint and the default threshold 0.95,
  at any clock reading, the features are \<open>treatment_category_match = 1\<close>,
  \<open>amount_ratio_valid = 1\<close>, \<open>date_proximity = 307/336\<close>, which exceeds 0.9, and
  \<open>name_similarity = 1\<close> (the name \<open>Johnson, Sarah\<close> is reordered to
  \<open>sarah johnson\<close>), and the result has \<open>confidence_level = High\<close> and
  \<open>recommendation = Auto-Accept\<close>.
\<close>

theorem sample_prediction:
  "\<exists>f r. engineer_features cpython sample_reward sample_pos = Inr f
     \<and> predict_match cpython now sample_reward sample_pos (95 / 100) = Inr r
     \<and> f ''treatment_category_match'' = Some 1
     \<and> f ''amount_ratio_valid'' = Some 1
     \<and> f ''date_proximity'' = Some (307 / 336) \<and> (9 / 10 :: rat) < 307 / 336
     \<and> f ''name_similarity'' = Some 1
     \<and> confidence_level r = ''High''
     \<and> recommendation r = ''Auto-Accept''"
proof -
  have p: "boosted_probability (1 * (4 / 10) + 24 / 100 * (3 / 10) + 307 / 336 * (2 / 10)
             + 1 * (1 / 10)) 1 1 (307 / 336) = 1"
    by (simp add: boosted_probability_def)
  have b: "confidence_bucket 1 = (''High'', ''Auto-Accept'')"
    by (simp add: confidence_bucket_def)
  show ?thesis
    unfolding sample_engineered predict_match_on_map [OF sample_engineered] p b
    by (simp add: feature_map_lookup)
qed

lemma clock_reading_shows:
  "now \<noteq> now' \<Longrightarrow> predict_match rt now reward_txn pos_txn threshold
                  \<noteq> predict_match rt now' reward_txn pos_txn threshold"
proof -
  assume ne: "now \<noteq> now'"
  obtain n s c where
    f: "engineer_features rt reward_txn pos_txn =
          Inr (feature_map n s c (date_proximity_block rt reward_txn pos_txn)
                 (amount_ratio_block rt reward_txn pos_txn))"
    using engineer_features_map by blast
  from ne show ?thesis
    by (simp add: predict_match_on_map [OF f])
qed

text \<open>
  C9 (as stated: two calls with identical inputs return identical results, every field
  included). The result carries \<^verbatim>\<open>datetime.now().isoformat()\<close>: two calls on the
  same records and threshold, one second apart, return different results.
\<close>

theorem timestamp_differs:
  "predict_match cpython ''2024-08-16T09:00:00'' sample_reward sample_pos (95 / 100)
   \<noteq> predict_match cpython ''2024-08-16T09:00:01'' sample_reward sample_pos (95 / 100)"
  by (rule clock_reading_shows) simp

theorem timestamp_only_difference_witness:
  "\<exists>r. predict_match cpython ''2024-08-16T09:00:00'' sample_reward sample_pos (95 / 100) = Inr r
     \<and> processing_timestamp r = ''2024-08-16T09:00:00''
     \<and> predict_match cpython ''2024-08-16T09:00:01'' sample_reward sample_pos (95 / 100)
         = Inr (r\<lparr> processing_timestamp := ''2024-08-16T09:00:01'' \<rparr>)"
  by (rule timestamp_only_difference)


theorem confidence_in_unit_interval_witness:
  "\<exists>f c r. engineer_features cpython sample_reward sample_pos = Inr f
     \<and> f ''overall_confidence'' = Some c \<and> 0 \<le> c \<and> c \<le> 1
     \<and> predict_match cpython ''2024-08-16T09:00:00'' sample_reward sample_pos (95 / 100) = Inr r
     \<and> 0 \<le> match_probability r \<and> match_probability r \<le> 1"
  by (rule confidence_in_unit_interval)

subsection \<open>The batch handler\<close>














end
